theory Spec2Isabelle
  imports Complex_Main
begin

section \<open>Global pose sampler of als\_ros2: data model\<close>

text \<open>
  The development follows \<^verbatim>\<open>GLPoseSampler\<close> (include/als\_ros2, the header that
  defines \<^verbatim>\<open>Keypoint\<close>, \<^verbatim>\<open>SDFOrientationFeature\<close> and \<^verbatim>\<open>GLPoseSampler\<close>).
  The class that is compiled has \<^verbatim>\<open>detectKeypoints\<close>, \<^verbatim>\<open>calculateFeatures\<close>, \<^verbatim>\<open>xy2uv\<close>
  and three callbacks that only log. It has no feature matcher, no scan-consistency
  verification and no pose generation: these exist in the header only as the text of the
  ROS 1 class inside a comment block, which is not code of the program. What the program
  does is modelled from its code; the three missing components are modelled from the
  specification and marked as such.
  Finite \<^verbatim>\<open>float\<close> and \<^verbatim>\<open>double\<close> arithmetic is idealised to \<^typ>\<open>real\<close> (rounding is
  not modelled); the exceptional results of a floating-point division by zero are kept
  and modelled by the type \<open>fl\<close> below.
\<close>

text \<open>\<^verbatim>\<open>class Keypoint\<close>: grid coordinates, world coordinates and the type, a \<^verbatim>\<open>char\<close>
  holding -2 (invalid, the default of every constructor without a type), -1 (local
  minimum), 0 (saddle) or 1 (local maximum).\<close>

record Keypoint =
  kp_u :: int
  kp_v :: int
  kp_x :: real
  kp_y :: real
  kp_type :: int

text \<open>\<^verbatim>\<open>nav_msgs::msg::OccupancyGrid\<close>: \<^verbatim>\<open>info.width\<close> and \<^verbatim>\<open>info.height\<close> are unsigned,
  \<^verbatim>\<open>data\<close> is a vector of signed bytes (0 free, 100 occupied, -1 unknown), row-major.
  \<open>origin_yaw\<close> is the yaw that \<^verbatim>\<open>getRPY\<close> extracts from the origin quaternion.\<close>

record OccupancyGrid =
  width :: nat
  height :: nat
  resolution :: real
  origin_x :: real
  origin_y :: real
  origin_yaw :: real
  data :: "int list"

text \<open>\<^verbatim>\<open>cv::Mat\<close> of \<^verbatim>\<open>CV_32FC1\<close>: a continuous row-major buffer; \<^verbatim>\<open>at<float>(v, u)\<close> reads
  the element at offset \<open>v * cols + u\<close> without a bounds check.\<close>

record Mat =
  rows :: int
  cols :: int
  cells :: "real list"

definition mat_at :: "Mat \<Rightarrow> int \<Rightarrow> int \<Rightarrow> real" where
  "mat_at d v u = cells d ! nat (v * cols d + u)"

text \<open>The node parameters that the algorithms read.\<close>

record Params =
  gradientSquareTH :: real
  keypointsMinDistFromMap :: real
  sdfFeatureWindowSize :: real
  averageSDFDeltaTH :: real
  addRandomSamples :: bool
  addOppositeSamples :: bool
  randomSamplesNum :: int
  positionalRandomNoise :: real
  angularRandomNoise :: real
  matchingRateTH :: real
  keyScansNum :: int
  keyScanIntervalDist :: real
  keyScanIntervalYaw :: real

text \<open>A \<^verbatim>\<open>float\<close> or \<^verbatim>\<open>double\<close> that may come out of a division by zero: a finite value,
  an infinity or a NaN. Comparisons with a NaN are false.\<close>

datatype fl = Fin real | PInf | NInf | NaN

text \<open>\<^verbatim>\<open>x / d\<close> for finite operands (the divisors in this code are converted counts, so a
  zero divisor is the positive zero).\<close>

definition fl_div :: "real \<Rightarrow> real \<Rightarrow> fl" where
  "fl_div x d =
     (if d \<noteq> 0 then Fin (x / d)
      else if x > 0 then PInf else if x < 0 then NInf else NaN)"


text \<open>\<^verbatim>\<open>class SDFOrientationFeature\<close>. The average is the quotient \<^verbatim>\<open>distSum / cellNum\<close>
  computed by \<^verbatim>\<open>calculateFeatures\<close>.\<close>

record SDFOrientationFeature =
  dominantOrientation :: real
  averageSDF :: fl
  relativeOrientationHist :: "int list"

text \<open>\<^verbatim>\<open>class Pose\<close>.\<close>

record Pose =
  pose_x :: real
  pose_y :: real
  pose_yaw :: real

text \<open>The fields of \<^verbatim>\<open>sensor_msgs::msg::LaserScan\<close> that matter here; \<open>frame_id\<close> is
  \<^verbatim>\<open>header.frame_id\<close>.\<close>

record LaserScan =
  frame_id :: string
  angle_min :: real
  angle_increment :: real
  range_min :: real
  range_max :: real
  ranges :: "real list"

text \<open>The mutable members of \<^verbatim>\<open>GLPoseSampler\<close>.\<close>

record Sampler =
  baseLink2Laser :: Pose
  mapWidth :: int
  mapHeight :: int
  mapResolution :: real
  mapOrigin :: Pose
  mapData :: "int list"
  gotMap :: bool
  keyScans :: "LaserScan list"
  keyPoses :: "Pose list"
  odomPose :: Pose
  gotOdom :: bool
  sdfKeypoints :: "Keypoint list"
  sdfOrientationFeatures :: "SDFOrientationFeature list"

section \<open>Keypoint detection (\<^verbatim>\<open>detectKeypoints\<close>)\<close>

text \<open>The first and second differences of the distance field at cell \<open>(v, u)\<close>, as
  written in the loop body.\<close>

definition grad_dx :: "Mat \<Rightarrow> int \<Rightarrow> int \<Rightarrow> real" where
  "grad_dx d v u =
     - mat_at d (v - 1) (u - 1) - mat_at d v (u - 1) - mat_at d (v + 1) (u - 1)
     + mat_at d (v - 1) (u + 1) + mat_at d v (u + 1) + mat_at d (v + 1) (u + 1)"

definition grad_dy :: "Mat \<Rightarrow> int \<Rightarrow> int \<Rightarrow> real" where
  "grad_dy d v u =
     - mat_at d (v - 1) (u - 1) - mat_at d (v - 1) u - mat_at d (v - 1) (u + 1)
     + mat_at d (v + 1) (u - 1) + mat_at d (v + 1) u + mat_at d (v + 1) (u + 1)"

definition hess_dxx :: "Mat \<Rightarrow> int \<Rightarrow> int \<Rightarrow> real" where
  "hess_dxx d v u = mat_at d v (u - 1) - 2 * mat_at d v u + mat_at d v (u + 1)"

definition hess_dyy :: "Mat \<Rightarrow> int \<Rightarrow> int \<Rightarrow> real" where
  "hess_dyy d v u = mat_at d (v - 1) u - 2 * mat_at d v u + mat_at d (v + 1) u"

definition hess_dxy :: "Mat \<Rightarrow> int \<Rightarrow> int \<Rightarrow> real" where
  "hess_dxy d v u =
     mat_at d (v - 1) (u - 1) - mat_at d (v - 1) u - mat_at d v (u - 1)
     + 2 * mat_at d v u - mat_at d v (u + 1) - mat_at d (v + 1) u
     + mat_at d (v + 1) (u + 1)"

definition hess_det :: "Mat \<Rightarrow> int \<Rightarrow> int \<Rightarrow> real" where
  "hess_det d v u = hess_dxx d v u * hess_dyy d v u - hess_dxy d v u * hess_dxy d v u"

text \<open>The test \<^verbatim>\<open>dx * dx < gradientSquareTH_ && dy * dy < gradientSquareTH_\<close>.\<close>

definition gradient_flat :: "Params \<Rightarrow> Mat \<Rightarrow> int \<Rightarrow> int \<Rightarrow> bool" where
  "gradient_flat p d v u \<longleftrightarrow>
     grad_dx d v u * grad_dx d v u < gradientSquareTH p \<and>
     grad_dy d v u * grad_dy d v u < gradientSquareTH p"

text \<open>The keypoint that the loop body constructs for cell \<open>(u, v)\<close> with a given type:
  the grid offset scaled by the resolution, rotated by the map yaw and translated by the
  map origin.\<close>

definition mk_keypoint :: "OccupancyGrid \<Rightarrow> int \<Rightarrow> int \<Rightarrow> int \<Rightarrow> Keypoint" where
  "mk_keypoint m u v t =
     (let yaw = origin_yaw m;
          xx = real_of_int u * resolution m;
          yy = real_of_int v * resolution m;
          dx = xx * cos yaw - yy * sin yaw;
          dy = xx * sin yaw + yy * cos yaw
      in \<lparr>kp_u = u, kp_v = v, kp_x = dx + origin_x m, kp_y = dy + origin_y m, kp_type = t\<rparr>)"

text \<open>One iteration of the inner loop: the keypoints pushed for cell \<open>(u, v)\<close> (none or
  one).\<close>

definition keypoint_at :: "Params \<Rightarrow> OccupancyGrid \<Rightarrow> Mat \<Rightarrow> int \<Rightarrow> int \<Rightarrow> Keypoint list" where
  "keypoint_at p m d u v =
     (let n = v * int (width m) + u in
      if data m ! nat n \<noteq> 0 \<or> mat_at d v u < keypointsMinDistFromMap p then []
      else if gradient_flat p d v u then
        (if hess_det d v u > 0 \<and> hess_dxx d v u < 0 then [mk_keypoint m u v 1]
         else if hess_det d v u > 0 \<and> hess_dxx d v u > 0 then [mk_keypoint m u v (- 1)]
         else if hess_det d v u < 0 then [mk_keypoint m u v 0]
         else [])
      else [])"

text \<open>The two nested \<^verbatim>\<open>for\<close> statements, \<open>u\<close> outside and \<open>v\<close> inside, both from 1 to the size minus
  2, pushing to the back of the result. (The function also stores the yaw of the grid
  in the member \<^verbatim>\<open>mapOrigin_\<close>; the returned vector does not depend on that write.)\<close>

definition detectKeypoints :: "Params \<Rightarrow> OccupancyGrid \<Rightarrow> Mat \<Rightarrow> Keypoint list" where
  "detectKeypoints p m d =
     concat (map (\<lambda>u. concat (map (\<lambda>v. keypoint_at p m d u v) [1 .. int (height m) - 2]))
                 [1 .. int (width m) - 2])"

text \<open>The keypoints of the result that were emitted for cell \<open>(u, v)\<close>.\<close>

definition emitted_at :: "Params \<Rightarrow> OccupancyGrid \<Rightarrow> Mat \<Rightarrow> int \<Rightarrow> int \<Rightarrow> Keypoint list" where
  "emitted_at p m d u v = filter (\<lambda>k. kp_u k = u \<and> kp_v k = v) (detectKeypoints p m d)"

text \<open>A 3 x 3 free grid and distance fields used as concrete inputs.\<close>

definition grid3 :: OccupancyGrid where
  "grid3 = \<lparr>width = 3, height = 3, resolution = 1, origin_x = 0, origin_y = 0,
            origin_yaw = 0, data = [0, 0, 0, 0, 0, 0, 0, 0, 0]\<rparr>"

definition params0 :: Params where
  "params0 = \<lparr>gradientSquareTH = 16, keypointsMinDistFromMap = 1,
     sdfFeatureWindowSize = 0, averageSDFDeltaTH = 1, addRandomSamples = False,
     addOppositeSamples = False, randomSamplesNum = 0, positionalRandomNoise = 0,
     angularRandomNoise = 0, matchingRateTH = 1 / 2, keyScansNum = 2,
     keyScanIntervalDist = 1 / 2, keyScanIntervalYaw = 1\<rparr>"

definition peak3 :: Mat where
  "peak3 = \<lparr>rows = 3, cols = 3, cells = [0, 1, 0, 1, 2, 1, 0, 1, 0]\<rparr>"

definition slope3 :: Mat where
  "slope3 = \<lparr>rows = 3, cols = 3, cells = [0, 0, 0, 0, 1, 3, 0, 3, 0]\<rparr>"

definition steep3 :: Mat where
  "steep3 = \<lparr>rows = 3, cols = 3, cells = [0, 0, 8, 0, 1, 8, 0, 0, 8]\<rparr>"

definition basin3 :: Mat where
  "basin3 = \<lparr>rows = 3, cols = 3, cells = [3, 2, 3, 2, 1, 2, 3, 2, 3]\<rparr>"

definition level3 :: Mat where
  "level3 = \<lparr>rows = 3, cols = 3, cells = [1, 1, 1, 1, 1, 1, 1, 1, 1]\<rparr>"

section \<open>Angles and casts\<close>

text \<open>The cast \<^verbatim>\<open>(int)x\<close> of a finite \<^verbatim>\<open>double\<close>: truncation toward zero. (Integers are
  unbounded in this model; the cast of a value outside the \<^verbatim>\<open>int\<close> range, of an infinity
  or of a NaN is undefined in C++ and is not given a meaning here.)\<close>

definition trunc :: "real \<Rightarrow> int" where
  "trunc x = (if 0 \<le> x then \<lfloor>x\<rfloor> else \<lceil>x\<rceil>)"

text \<open>\<^verbatim>\<open>atan2(y, x)\<close> of finite arguments, with values in \<open>(-\<pi>, \<pi>]\<close>.\<close>

definition atan2 :: "real \<Rightarrow> real \<Rightarrow> real" where
  "atan2 y x =
     (if 0 < x then arctan (y / x)
      else if x < 0 then (if 0 \<le> y then arctan (y / x) + pi else arctan (y / x) - pi)
      else if 0 < y then pi / 2 else if y < 0 then - pi / 2 else 0)"

text \<open>The statements \<^verbatim>\<open>while (dt > 180.0) dt -= 360.0;\<close> and \<^verbatim>\<open>while (dt < -180.0) dt += 360.0;\<close>.\<close>

function sub360 :: "real \<Rightarrow> real" where
  "sub360 dt = (if dt > 180 then sub360 (dt - 360) else dt)"
  by pat_completeness auto
termination
proof (relation "measure (\<lambda>dt. nat \<lceil>dt\<rceil>)")
  show "wf (measure (\<lambda>dt. nat \<lceil>dt\<rceil>))" by simp
next
  fix dt :: real assume "180 < dt"
  then have "\<lceil>dt - 360\<rceil> < \<lceil>dt\<rceil>" "0 < \<lceil>dt\<rceil>" by linarith+
  then show "(dt - 360, dt) \<in> measure (\<lambda>dt. nat \<lceil>dt\<rceil>)" by simp
qed

function add360 :: "real \<Rightarrow> real" where
  "add360 dt = (if dt < - 180 then add360 (dt + 360) else dt)"
  by pat_completeness auto
termination
proof (relation "measure (\<lambda>dt. nat \<lceil>- dt\<rceil>)")
  show "wf (measure (\<lambda>dt. nat \<lceil>- dt\<rceil>))" by simp
next
  fix dt :: real assume "dt < - 180"
  then have "\<lceil>- (dt + 360)\<rceil> < \<lceil>- dt\<rceil>" "0 < \<lceil>- dt\<rceil>" by linarith+
  then show "(dt + 360, dt) \<in> measure (\<lambda>dt. nat \<lceil>- dt\<rceil>)" by simp
qed

text \<open>The two recursions are unfolded by hand (\<open>subst\<close>) in the proofs, never by the
  simplifier.\<close>

declare sub360.simps [simp del] add360.simps [simp del]

section \<open>Orientation features (\<^verbatim>\<open>calculateFeatures\<close>)\<close>

text \<open>The window half-width \<^verbatim>\<open>r = (int)(sdfFeatureWindowSize_ / mapResolution_)\<close>.\<close>

definition window_radius :: "Params \<Rightarrow> Sampler \<Rightarrow> int" where
  "window_radius p s = trunc (sdfFeatureWindowSize p / mapResolution s)"

text \<open>The cells of the window around \<open>(uo, vo)\<close> that pass the guard
  \<^verbatim>\<open>u < 1 || distMap.cols - 1 < u || v < 1 || distMap.rows - 1 < v\<close>, in loop order
  (\<open>u\<close> outside, \<open>v\<close> inside).\<close>

definition window_cells :: "Mat \<Rightarrow> int \<Rightarrow> int \<Rightarrow> int \<Rightarrow> (int \<times> int) list" where
  "window_cells d r uo vo =
     concat (map (\<lambda>u. concat (map (\<lambda>v.
         if u < 1 \<or> cols d - 1 < u \<or> v < 1 \<or> rows d - 1 < v then [] else [(u, v)])
       [vo - r .. vo + r])) [uo - r .. uo + r])"

text \<open>The gradient direction of a cell in degrees, moved into \<open>[0, 360)\<close>.\<close>

definition orientation_deg :: "Mat \<Rightarrow> int \<times> int \<Rightarrow> real" where
  "orientation_deg d = (\<lambda>(u, v).
     let t = atan2 (grad_dy d v u) (grad_dx d v u) * 180 / pi
     in if t < 0 then t + 360 else t)"

text \<open>The vector \<^verbatim>\<open>orientations\<close>: the directions whose bin index is within 0..35.\<close>

definition orientations :: "Mat \<Rightarrow> (int \<times> int) list \<Rightarrow> real list" where
  "orientations d cs =
     filter (\<lambda>t. 0 \<le> trunc (t / 10) \<and> trunc (t / 10) < 36) (map (orientation_deg d) cs)"

text \<open>The 36-bin histogram \<^verbatim>\<open>orientHist\<close>: bin \<open>j\<close> counts the recorded directions with
  index \<open>j\<close>.\<close>

definition orientHist :: "real list \<Rightarrow> int list" where
  "orientHist ts = map (\<lambda>j. int (length (filter (\<lambda>t. trunc (t / 10) = j) ts))) [0 .. 35]"

text \<open>The search for the mode: \<^verbatim>\<open>maxVal = orientHist[0]\<close>, \<^verbatim>\<open>domOrient = 0.0\<close>, then bins
  1 to 35 with a strict comparison.\<close>

definition dominant :: "int list \<Rightarrow> real" where
  "dominant h =
     snd (fold (\<lambda>j (maxVal, domOrient).
                  if h ! j > maxVal then (h ! j, real j * 10) else (maxVal, domOrient))
               [1 ..< length h] (h ! 0, 0))"

text \<open>The 17-bin histogram of the wrapped deviations from the dominant orientation.\<close>

definition rel_index :: "real \<Rightarrow> real \<Rightarrow> int" where
  "rel_index domOrient t = trunc (\<bar>add360 (sub360 (domOrient - t))\<bar> / 10)"

definition relOrientHist :: "real \<Rightarrow> real list \<Rightarrow> int list" where
  "relOrientHist domOrient ts =
     map (\<lambda>j. int (length (filter (\<lambda>t. rel_index domOrient t = j) ts))) [0 .. 16]"

text \<open>The body of the loop over the keypoints. \<^verbatim>\<open>distAve = distSum / (float)cellNum\<close> is
  computed without a test of \<^verbatim>\<open>cellNum\<close>.\<close>

definition calcFeature :: "Params \<Rightarrow> Sampler \<Rightarrow> Mat \<Rightarrow> Keypoint \<Rightarrow> SDFOrientationFeature" where
  "calcFeature p s d k =
     (let r = window_radius p s;
          cs = window_cells d r (kp_u k) (kp_v k);
          distSum = sum_list (map (\<lambda>(u, v). mat_at d v u) cs);
          cellNum = length cs;
          ts = orientations d cs;
          domOrient = dominant (orientHist ts)
      in \<lparr>dominantOrientation = domOrient * pi / 180,
          averageSDF = fl_div distSum (real cellNum),
          relativeOrientationHist = relOrientHist domOrient ts\<rparr>)"

definition calculateFeatures ::
  "Params \<Rightarrow> Sampler \<Rightarrow> Mat \<Rightarrow> Keypoint list \<Rightarrow> SDFOrientationFeature list" where
  "calculateFeatures p s d keypoints = map (calcFeature p s d) keypoints"

text \<open>A keypoint in the corner of the grid: with half-width 0 its window is the single
  cell \<open>(0, 0)\<close>, which the guard skips.\<close>

definition kp_corner :: Keypoint where
  "kp_corner = \<lparr>kp_u = 0, kp_v = 0, kp_x = 0, kp_y = 0, kp_type = 1\<rparr>"

section \<open>Projection into the global grid (\<^verbatim>\<open>xy2uv\<close>)\<close>



section \<open>The callbacks of the compiled class\<close>

text \<open>What a callback can do besides changing members: write a line to the log
  (\<^verbatim>\<open>RCLCPP_INFO\<close>), publish on one of the four publishers (pose array, local map, the two
  keypoint marker lists), or shut the node down (\<^verbatim>\<open>rclcpp::shutdown\<close>).\<close>

datatype publication =
  PosesMsg "Pose list"
| LocalMapMsg OccupancyGrid
| SdfKeypointsMsg "Keypoint list"
| LocalSdfKeypointsMsg "Keypoint list"

datatype effect = Info string | Published publication | Shutdown

text \<open>The messages of the map and odometry topics, with the \<^verbatim>\<open>header.frame_id\<close> that the
  callbacks print.\<close>

record MapMsg =
  map_frame_id :: string
  map_grid :: OccupancyGrid

record OdomMsg =
  odom_frame_id :: string
  odom_pose :: Pose

text \<open>The line \<^verbatim>\<open>"I heard: '%s'"\<close> for a frame id.\<close>

definition heard :: "string \<Rightarrow> string" where
  "heard frame = ''I heard: '' @ [CHR 0x27] @ frame @ [CHR 0x27]"

text \<open>\<^verbatim>\<open>mapCB\<close>, \<^verbatim>\<open>scanCB\<close> and \<^verbatim>\<open>odomCB\<close>: each body is the single \<^verbatim>\<open>RCLCPP_INFO\<close> call
  on the frame id of the message (the bodies are marked \<^verbatim>\<open>TODO\<close> in the source). No member
  is written.\<close>

definition mapCB :: "MapMsg \<Rightarrow> Sampler \<Rightarrow> Sampler \<times> effect list" where
  "mapCB msg s = (s, [Info (heard (map_frame_id msg))])"

definition scanCB :: "LaserScan \<Rightarrow> Sampler \<Rightarrow> Sampler \<times> effect list" where
  "scanCB msg s = (s, [Info (heard (frame_id msg))])"

definition odomCB :: "OdomMsg \<Rightarrow> Sampler \<Rightarrow> Sampler \<times> effect list" where
  "odomCB msg s = (s, [Info (heard (odom_frame_id msg))])"

text \<open>\<^verbatim>\<open>checkMapOdom\<close>, the timer callback: it logs, and shuts the node down when no map
  or no odometry has been flagged.\<close>

definition checkMapOdom :: "Sampler \<Rightarrow> Sampler \<times> effect list" where
  "checkMapOdom s =
     (s, [Info ''Checking flags...'']
         @ (if \<not> gotMap s then [Info ''No map yet...'', Shutdown] else [])
         @ (if \<not> gotOdom s then [Info ''No odom yet...'', Shutdown] else []))"


text \<open>The callbacks run one at a time (\<^verbatim>\<open>rclcpp::spin\<close>); an execution is a list of
  arrivals and timer ticks, and it ends with the first shutdown.\<close>

datatype event = MapEv MapMsg | ScanEv LaserScan | OdomEv OdomMsg | TimerEv

fun step :: "event \<Rightarrow> Sampler \<Rightarrow> Sampler \<times> effect list" where
  "step (MapEv msg) s = mapCB msg s"
| "step (ScanEv msg) s = scanCB msg s"
| "step (OdomEv msg) s = odomCB msg s"
| "step TimerEv s = checkMapOdom s"

fun run :: "event list \<Rightarrow> Sampler \<Rightarrow> Sampler \<times> effect list" where
  "run [] s = (s, [])"
| "run (e # es) s =
     (let (s1, out1) = step e s
      in if Shutdown \<in> set out1 then (s1, out1)
         else (let (s2, out2) = run es s1 in (s2, out1 @ out2)))"

text \<open>The publications among the effects of a callback.\<close>

definition published :: "effect list \<Rightarrow> publication list" where
  "published out = concat (map (\<lambda>e. case e of Published m \<Rightarrow> [m] | _ \<Rightarrow> []) out)"


section \<open>The feature matcher, from the specification\<close>










section \<open>Hypothesis filtering and verification, from the specification\<close>











section \<open>Concrete inputs\<close>

text \<open>Three global maxima whose histograms are at L1 distance 2, 10 and 3 from the
  all-zero histogram of a local maximum, in a free 3 x 3 map.\<close>

definition hist_of :: "int \<Rightarrow> int list" where
  "hist_of c = c # replicate 16 0"

definition feat_of :: "int \<Rightarrow> SDFOrientationFeature" where
  "feat_of c = \<lparr>dominantOrientation = 0, averageSDF = Fin 0, relativeOrientationHist = hist_of c\<rparr>"

definition kp_max :: Keypoint where
  "kp_max = \<lparr>kp_u = 1, kp_v = 1, kp_x = 1, kp_y = 1, kp_type = 1\<rparr>"

definition pose0 :: Pose where
  "pose0 = \<lparr>pose_x = 0, pose_y = 0, pose_yaw = 0\<rparr>"

definition sampler3 :: Sampler where
  "sampler3 = \<lparr>baseLink2Laser = pose0, mapWidth = 3, mapHeight = 3, mapResolution = 1,
     mapOrigin = pose0, mapData = [0, 0, 0, 0, 0, 0, 0, 0, 0], gotMap = True,
     keyScans = [], keyPoses = [], odomPose = pose0, gotOdom = True,
     sdfKeypoints = [kp_max, kp_max, kp_max],
     sdfOrientationFeatures = [feat_of 2, feat_of 10, feat_of 3]\<rparr>"


definition scan_of :: "real list \<Rightarrow> LaserScan" where
  "scan_of rs = \<lparr>frame_id = ''base_laser'', angle_min = 0, angle_increment = 0,
     range_min = 1 / 10, range_max = 30, ranges = rs\<rparr>"

definition scan_far :: LaserScan where
  "scan_far = scan_of [2, 50, 50, 50, 50, 50, 50, 50, 50, 50, 50, 50, 50, 50, 50, 50, 50, 50,
     50, 50]"






section \<open>Properties of the keypoint detector\<close>

lemma keypoint_at_coords:
  "k \<in> set (keypoint_at p m d u v) \<Longrightarrow> kp_u k = u \<and> kp_v k = v"
  by (auto simp: keypoint_at_def mk_keypoint_def Let_def split: if_splits)

lemma filter_concat_map_key:
  assumes "distinct xs" and "\<And>x k. k \<in> set (f x) \<Longrightarrow> key k = x"
  shows "filter (\<lambda>k. key k = a) (concat (map f xs)) = (if a \<in> set xs then f a else [])"
  using assms(1)
proof (induction xs)
  case Nil
  then show ?case by simp
next
  case (Cons x xs)
  have hit: "filter (\<lambda>k. key k = a) (f a) = f a"
    using assms(2) by (simp add: filter_id_conv)
  have miss: "x \<noteq> a \<Longrightarrow> filter (\<lambda>k. key k = a) (f x) = []"
    using assms(2) by (auto simp: filter_empty_conv)
  from Cons show ?case
    by (cases "x = a") (auto simp: hit miss)
qed

lemma emitted_at_interior:
  assumes "1 \<le> u" "u \<le> int (width m) - 2" "1 \<le> v" "v \<le> int (height m) - 2"
  shows "emitted_at p m d u v = keypoint_at p m d u v"
proof -
  let ?row = "\<lambda>u. concat (map (\<lambda>v. keypoint_at p m d u v) [1 .. int (height m) - 2])"
  have row_u: "kp_u k = x" if "k \<in> set (?row x)" for x k
    using that keypoint_at_coords by fastforce
  have "emitted_at p m d u v =
        filter (\<lambda>k. kp_v k = v) (filter (\<lambda>k. kp_u k = u) (detectKeypoints p m d))"
    by (simp add: emitted_at_def conj_commute)
  also have "filter (\<lambda>k. kp_u k = u) (detectKeypoints p m d) = ?row u"
    unfolding detectKeypoints_def
    using filter_concat_map_key [of "[1 .. int (width m) - 2]" ?row kp_u u] row_u assms
    by simp
  also have "filter (\<lambda>k. kp_v k = v) (?row u) = keypoint_at p m d u v"
    using filter_concat_map_key
            [of "[1 .. int (height m) - 2]" "\<lambda>v. keypoint_at p m d u v" kp_v v]
          keypoint_at_coords [of _ p m d u] assms
    by simp
  finally show ?thesis .
qed

lemma emitted_at_outside:
  assumes "\<not> (1 \<le> u \<and> u \<le> int (width m) - 2 \<and> 1 \<le> v \<and> v \<le> int (height m) - 2)"
  shows "emitted_at p m d u v = []"
proof -
  have "\<not> (kp_u k = u \<and> kp_v k = v)" if "k \<in> set (detectKeypoints p m d)" for k
    using that assms keypoint_at_coords [of k p m d]
    by (fastforce simp: detectKeypoints_def)
  then show ?thesis
    by (simp add: emitted_at_def filter_empty_conv)
qed

lemma detectKeypoints_mem:
  "k \<in> set (detectKeypoints p m d) \<longleftrightarrow>
     (\<exists>u v. 1 \<le> u \<and> u \<le> int (width m) - 2 \<and> 1 \<le> v \<and> v \<le> int (height m) - 2 \<and>
            k \<in> set (keypoint_at p m d u v))"
  unfolding detectKeypoints_def by (simp add: Bex_def)

text \<open>
  Claim C1. Take an interior cell \<open>(u, v)\<close> that is free, whose distance value is at
  least the minimum-distance threshold and that passes the gradient test. With \<open>f i j\<close>
  the distance value in row \<open>i\<close> and column \<open>j\<close>, \<open>dxx\<close>, \<open>dyy\<close> and \<open>dxy\<close> the second
  differences at the cell and \<open>det = dxx * dyy - dxy\<^sup>2\<close>, the keypoints of the detector's
  result that sit on the cell are: for \<open>det > 0\<close> and \<open>dxx < 0\<close> exactly one, of type 1
  (maximum); for \<open>det > 0\<close> and \<open>dxx > 0\<close> exactly one, of type -1 (minimum); for
  \<open>det < 0\<close> exactly one, of type 0 (saddle); and none in every other case (\<open>det = 0\<close>, or
  \<open>det > 0\<close> with \<open>dxx = 0\<close>). The keypoint carries the cell and its world coordinates.
\<close>

theorem detectKeypoints_classification:
  fixes f :: "int \<Rightarrow> int \<Rightarrow> real" and dx dy dxx dyy dxy det x y :: real
  assumes "1 \<le> u" "u \<le> int (width m) - 2" "1 \<le> v" "v \<le> int (height m) - 2"
    and f: "f = (\<lambda>i j. cells d ! nat (i * cols d + j))"
    and "data m ! nat (v * int (width m) + u) = 0"
    and "keypointsMinDistFromMap p \<le> f v u"
    and dx: "dx = - f (v - 1) (u - 1) - f v (u - 1) - f (v + 1) (u - 1)
                  + f (v - 1) (u + 1) + f v (u + 1) + f (v + 1) (u + 1)"
    and dy: "dy = - f (v - 1) (u - 1) - f (v - 1) u - f (v - 1) (u + 1)
                  + f (v + 1) (u - 1) + f (v + 1) u + f (v + 1) (u + 1)"
    and "dx * dx < gradientSquareTH p" "dy * dy < gradientSquareTH p"
    and dxx: "dxx = f v (u - 1) - 2 * f v u + f v (u + 1)"
    and dyy: "dyy = f (v - 1) u - 2 * f v u + f (v + 1) u"
    and dxy: "dxy = f (v - 1) (u - 1) - f (v - 1) u - f v (u - 1) + 2 * f v u
                    - f v (u + 1) - f (v + 1) u + f (v + 1) (u + 1)"
    and det: "det = dxx * dyy - dxy * dxy"
    and x: "x = real_of_int u * resolution m * cos (origin_yaw m)
                - real_of_int v * resolution m * sin (origin_yaw m) + origin_x m"
    and y: "y = real_of_int u * resolution m * sin (origin_yaw m)
                + real_of_int v * resolution m * cos (origin_yaw m) + origin_y m"
  shows "filter (\<lambda>k. kp_u k = u \<and> kp_v k = v) (detectKeypoints p m d) =
           (if 0 < det \<and> dxx < 0
              then [\<lparr>kp_u = u, kp_v = v, kp_x = x, kp_y = y, kp_type = 1\<rparr>]
            else if 0 < det \<and> 0 < dxx
              then [\<lparr>kp_u = u, kp_v = v, kp_x = x, kp_y = y, kp_type = - 1\<rparr>]
            else if det < 0
              then [\<lparr>kp_u = u, kp_v = v, kp_x = x, kp_y = y, kp_type = 0\<rparr>]
            else [])"
proof -
  have at: "f i j = mat_at d i j" for i j
    by (simp add: f mat_at_def)
  have flat: "gradient_flat p d v u"
    using assms(10,11) by (simp add: gradient_flat_def grad_dx_def grad_dy_def dx dy at)
  have h: "hess_dxx d v u = dxx" "hess_det d v u = det"
    by (simp_all add: hess_det_def hess_dxx_def hess_dyy_def hess_dxy_def dxx dyy dxy det at)
  have mk: "mk_keypoint m u v t = \<lparr>kp_u = u, kp_v = v, kp_x = x, kp_y = y, kp_type = t\<rparr>" for t
    by (simp add: mk_keypoint_def Let_def x y)
  have "filter (\<lambda>k. kp_u k = u \<and> kp_v k = v) (detectKeypoints p m d) = keypoint_at p m d u v"
    using emitted_at_interior [OF assms(1-4), of p d] by (simp add: emitted_at_def)
  also have "\<dots> = (if 0 < det \<and> dxx < 0 then [mk_keypoint m u v 1]
                   else if 0 < det \<and> 0 < dxx then [mk_keypoint m u v (- 1)]
                   else if det < 0 then [mk_keypoint m u v 0] else [])"
    using assms(6,7) flat by (simp add: keypoint_at_def Let_def h at)
  finally show ?thesis by (simp add: mk)
qed


theorem detectKeypoints_classification_witness:
  "filter (\<lambda>k. kp_u k = 1 \<and> kp_v k = 1) (detectKeypoints params0 grid3 peak3) =
     [\<lparr>kp_u = 1, kp_v = 1, kp_x = 1, kp_y = 1, kp_type = 1\<rparr>] \<and>
   filter (\<lambda>k. kp_u k = 1 \<and> kp_v k = 1) (detectKeypoints params0 grid3 basin3) =
     [\<lparr>kp_u = 1, kp_v = 1, kp_x = 1, kp_y = 1, kp_type = - 1\<rparr>] \<and>
   filter (\<lambda>k. kp_u k = 1 \<and> kp_v k = 1) (detectKeypoints params0 grid3 slope3) =
     [\<lparr>kp_u = 1, kp_v = 1, kp_x = 1, kp_y = 1, kp_type = 0\<rparr>] \<and>
   filter (\<lambda>k. kp_u k = 1 \<and> kp_v k = 1) (detectKeypoints params0 grid3 level3) = []"
proof -
  have "filter (\<lambda>k. kp_u k = 1 \<and> kp_v k = 1) (detectKeypoints params0 grid3 peak3) =
     (if (0::real) < 4 \<and> (- 2::real) < 0
        then [\<lparr>kp_u = 1, kp_v = 1, kp_x = 1, kp_y = 1, kp_type = 1\<rparr>]
      else if (0::real) < 4 \<and> (0::real) < - 2
        then [\<lparr>kp_u = 1, kp_v = 1, kp_x = 1, kp_y = 1, kp_type = - 1\<rparr>]
      else if (4::real) < 0
        then [\<lparr>kp_u = 1, kp_v = 1, kp_x = 1, kp_y = 1, kp_type = 0\<rparr>]
      else [])"
    by (rule detectKeypoints_classification
          [where f = "\<lambda>i j. cells peak3 ! nat (i * cols peak3 + j)"
             and dx = 0 and dy = 0 and dyy = "- 2" and dxy = 0])
       (simp_all add: grid3_def params0_def peak3_def)
  then have a: "filter (\<lambda>k. kp_u k = 1 \<and> kp_v k = 1) (detectKeypoints params0 grid3 peak3) =
     [\<lparr>kp_u = 1, kp_v = 1, kp_x = 1, kp_y = 1, kp_type = 1\<rparr>]"
    by simp
  have "filter (\<lambda>k. kp_u k = 1 \<and> kp_v k = 1) (detectKeypoints params0 grid3 basin3) =
     (if (0::real) < 4 \<and> (2::real) < 0
        then [\<lparr>kp_u = 1, kp_v = 1, kp_x = 1, kp_y = 1, kp_type = 1\<rparr>]
      else if (0::real) < 4 \<and> (0::real) < 2
        then [\<lparr>kp_u = 1, kp_v = 1, kp_x = 1, kp_y = 1, kp_type = - 1\<rparr>]
      else if (4::real) < 0
        then [\<lparr>kp_u = 1, kp_v = 1, kp_x = 1, kp_y = 1, kp_type = 0\<rparr>]
      else [])"
    by (rule detectKeypoints_classification
          [where f = "\<lambda>i j. cells basin3 ! nat (i * cols basin3 + j)"
             and dx = 0 and dy = 0 and dyy = 2 and dxy = 0])
       (simp_all add: grid3_def params0_def basin3_def)
  then have b: "filter (\<lambda>k. kp_u k = 1 \<and> kp_v k = 1) (detectKeypoints params0 grid3 basin3) =
     [\<lparr>kp_u = 1, kp_v = 1, kp_x = 1, kp_y = 1, kp_type = - 1\<rparr>]"
    by simp
  have "filter (\<lambda>k. kp_u k = 1 \<and> kp_v k = 1) (detectKeypoints params0 grid3 slope3) =
     (if (0::real) < - 15 \<and> (1::real) < 0
        then [\<lparr>kp_u = 1, kp_v = 1, kp_x = 1, kp_y = 1, kp_type = 1\<rparr>]
      else if (0::real) < - 15 \<and> (0::real) < 1
        then [\<lparr>kp_u = 1, kp_v = 1, kp_x = 1, kp_y = 1, kp_type = - 1\<rparr>]
      else if (- 15::real) < 0
        then [\<lparr>kp_u = 1, kp_v = 1, kp_x = 1, kp_y = 1, kp_type = 0\<rparr>]
      else [])"
    by (rule detectKeypoints_classification
          [where f = "\<lambda>i j. cells slope3 ! nat (i * cols slope3 + j)"
             and dx = 3 and dy = 3 and dyy = 1 and dxy = "- 4"])
       (simp_all add: grid3_def params0_def slope3_def)
  then have c: "filter (\<lambda>k. kp_u k = 1 \<and> kp_v k = 1) (detectKeypoints params0 grid3 slope3) =
     [\<lparr>kp_u = 1, kp_v = 1, kp_x = 1, kp_y = 1, kp_type = 0\<rparr>]"
    by simp
  have "filter (\<lambda>k. kp_u k = 1 \<and> kp_v k = 1) (detectKeypoints params0 grid3 level3) =
     (if (0::real) < 0 \<and> (0::real) < 0
        then [\<lparr>kp_u = 1, kp_v = 1, kp_x = 1, kp_y = 1, kp_type = 1\<rparr>]
      else if (0::real) < 0 \<and> (0::real) < 0
        then [\<lparr>kp_u = 1, kp_v = 1, kp_x = 1, kp_y = 1, kp_type = - 1\<rparr>]
      else if (0::real) < 0
        then [\<lparr>kp_u = 1, kp_v = 1, kp_x = 1, kp_y = 1, kp_type = 0\<rparr>]
      else [])"
    by (rule detectKeypoints_classification
          [where f = "\<lambda>i j. cells level3 ! nat (i * cols level3 + j)"
             and dx = 0 and dy = 0 and dyy = 0 and dxy = 0])
       (simp_all add: grid3_def params0_def level3_def)
  then have d: "filter (\<lambda>k. kp_u k = 1 \<and> kp_v k = 1) (detectKeypoints params0 grid3 level3) = []"
    by simp
  from a b c d show ?thesis by simp
qed

lemmas detector_defs =
  emitted_at_def detectKeypoints_def keypoint_at_def gradient_flat_def mk_keypoint_def
  grad_dx_def grad_dy_def hess_dxx_def hess_dyy_def hess_dxy_def hess_det_def mat_at_def
  grid3_def params0_def Let_def

text \<open>
  Claim C9, as stated, fails: the detector does not compare the squared gradient
  magnitude \<open>dx\<^sup>2 + dy\<^sup>2\<close> with the threshold but each of \<open>dx\<^sup>2\<close> and \<open>dy\<^sup>2\<close> on its
  own. On the field \<open>slope3\<close> (threshold 16, \<open>dx = dy = 3\<close>) the squared magnitude 18 is
  above the threshold and a saddle keypoint is emitted for the cell.
\<close>

theorem detectKeypoints_magnitude_counterexample:
  "gradientSquareTH params0 \<le>
     grad_dx slope3 1 1 * grad_dx slope3 1 1 + grad_dy slope3 1 1 * grad_dy slope3 1 1 \<and>
   emitted_at params0 grid3 slope3 1 1 = [mk_keypoint grid3 1 1 0]"
  by (simp add: detector_defs slope3_def)

text \<open>
  Claim C9, amended. The detector admits a cell only if each squared gradient component,
  \<open>dx\<^sup>2\<close> and \<open>dy\<^sup>2\<close> of the 3 x 3 kernel, is below the threshold: every keypoint of the
  result sits on a cell with \<open>dx\<^sup>2 < th\<close> and \<open>dy\<^sup>2 < th\<close>, and a cell with \<open>dx\<^sup>2 \<ge> th\<close> or
  \<open>dy\<^sup>2 \<ge> th\<close> produces no keypoint.
\<close>

theorem detectKeypoints_flatness_componentwise:
  "(\<forall>k \<in> set (detectKeypoints p m d).
      grad_dx d (kp_v k) (kp_u k) * grad_dx d (kp_v k) (kp_u k) < gradientSquareTH p \<and>
      grad_dy d (kp_v k) (kp_u k) * grad_dy d (kp_v k) (kp_u k) < gradientSquareTH p) \<and>
   (\<forall>u v. gradientSquareTH p \<le> grad_dx d v u * grad_dx d v u \<or>
          gradientSquareTH p \<le> grad_dy d v u * grad_dy d v u \<longrightarrow>
          emitted_at p m d u v = [])"
proof (intro conjI ballI allI impI)
  fix k assume "k \<in> set (detectKeypoints p m d)"
  then obtain u v where k: "k \<in> set (keypoint_at p m d u v)"
    by (auto simp: detectKeypoints_mem)
  then have uv: "kp_u k = u" "kp_v k = v"
    using keypoint_at_coords by blast+
  from k have "gradient_flat p d v u"
    by (auto simp: keypoint_at_def Let_def split: if_splits)
  then show "grad_dx d (kp_v k) (kp_u k) * grad_dx d (kp_v k) (kp_u k) < gradientSquareTH p"
    and "grad_dy d (kp_v k) (kp_u k) * grad_dy d (kp_v k) (kp_u k) < gradientSquareTH p"
    by (simp_all add: uv gradient_flat_def)
next
  fix u v
  assume steep: "gradientSquareTH p \<le> grad_dx d v u * grad_dx d v u \<or>
                 gradientSquareTH p \<le> grad_dy d v u * grad_dy d v u"
  then have nf: "\<not> gradient_flat p d v u"
    by (auto simp: gradient_flat_def)
  show "emitted_at p m d u v = []"
  proof (cases "1 \<le> u \<and> u \<le> int (width m) - 2 \<and> 1 \<le> v \<and> v \<le> int (height m) - 2")
    case True
    then show ?thesis using nf by (simp add: emitted_at_interior keypoint_at_def Let_def)
  next
    case False
    then show ?thesis by (rule emitted_at_outside)
  qed
qed

theorem detectKeypoints_flatness_componentwise_witness:
  "mk_keypoint grid3 1 1 1 \<in> set (detectKeypoints params0 grid3 peak3) \<and>
   grad_dx peak3 1 1 * grad_dx peak3 1 1 < gradientSquareTH params0 \<and>
   grad_dy peak3 1 1 * grad_dy peak3 1 1 < gradientSquareTH params0 \<and>
   gradientSquareTH params0 \<le> grad_dx steep3 1 1 * grad_dx steep3 1 1 \<and>
   emitted_at params0 grid3 steep3 1 1 = []"
proof -
  have mem: "mk_keypoint grid3 1 1 1 \<in> set (detectKeypoints params0 grid3 peak3)"
    by (simp add: detector_defs peak3_def)
  have steep: "gradientSquareTH params0 \<le> grad_dx steep3 1 1 * grad_dx steep3 1 1"
    by (simp add: grad_dx_def mat_at_def steep3_def params0_def)
  from detectKeypoints_flatness_componentwise [of params0 grid3 peak3] mem
  have "grad_dx peak3 (kp_v (mk_keypoint grid3 1 1 1)) (kp_u (mk_keypoint grid3 1 1 1)) *
        grad_dx peak3 (kp_v (mk_keypoint grid3 1 1 1)) (kp_u (mk_keypoint grid3 1 1 1))
          < gradientSquareTH params0 \<and>
        grad_dy peak3 (kp_v (mk_keypoint grid3 1 1 1)) (kp_u (mk_keypoint grid3 1 1 1)) *
        grad_dy peak3 (kp_v (mk_keypoint grid3 1 1 1)) (kp_u (mk_keypoint grid3 1 1 1))
          < gradientSquareTH params0"
    by blast
  then have flat: "grad_dx peak3 1 1 * grad_dx peak3 1 1 < gradientSquareTH params0 \<and>
                   grad_dy peak3 1 1 * grad_dy peak3 1 1 < gradientSquareTH params0"
    by (simp add: mk_keypoint_def Let_def)
  from detectKeypoints_flatness_componentwise [of params0 grid3 steep3] steep
  have "emitted_at params0 grid3 steep3 1 1 = []"
    by blast
  with mem steep flat show ?thesis by blast
qed

text \<open>
  Claim C10. Every keypoint returned by the detector has a type among 1, -1 and 0 (so
  never the default -2 of the \<^verbatim>\<open>Keypoint\<close> constructors), grid coordinates with
  \<open>1 \<le> u \<le> width - 2\<close> and \<open>1 \<le> v \<le> height - 2\<close>, and lies on a free cell whose
  distance value is at least the minimum-distance threshold.
\<close>

theorem detectKeypoints_output_invariant:
  "\<forall>k \<in> set (detectKeypoints p m d).
     kp_type k \<in> {1, - 1, 0} \<and> kp_type k \<noteq> - 2 \<and>
     1 \<le> kp_u k \<and> kp_u k \<le> int (width m) - 2 \<and>
     1 \<le> kp_v k \<and> kp_v k \<le> int (height m) - 2 \<and>
     data m ! nat (kp_v k * int (width m) + kp_u k) = 0 \<and>
     keypointsMinDistFromMap p \<le> mat_at d (kp_v k) (kp_u k)"
proof
  fix k assume "k \<in> set (detectKeypoints p m d)"
  then obtain u v where inner: "1 \<le> u" "u \<le> int (width m) - 2" "1 \<le> v" "v \<le> int (height m) - 2"
    and k: "k \<in> set (keypoint_at p m d u v)"
    by (auto simp: detectKeypoints_mem)
  from k have uv: "kp_u k = u" "kp_v k = v"
    using keypoint_at_coords by blast+
  from k have ty: "kp_type k \<in> {1, - 1, 0}"
    by (auto simp: keypoint_at_def mk_keypoint_def Let_def split: if_splits)
  from k have free: "data m ! nat (v * int (width m) + u) = 0"
    and far: "keypointsMinDistFromMap p \<le> mat_at d v u"
    by (auto simp: keypoint_at_def Let_def split: if_splits)
  from ty have "kp_type k \<noteq> - 2" by auto
  with ty inner free far
  show "kp_type k \<in> {1, - 1, 0} \<and> kp_type k \<noteq> - 2 \<and>
     1 \<le> kp_u k \<and> kp_u k \<le> int (width m) - 2 \<and>
     1 \<le> kp_v k \<and> kp_v k \<le> int (height m) - 2 \<and>
     data m ! nat (kp_v k * int (width m) + kp_u k) = 0 \<and>
     keypointsMinDistFromMap p \<le> mat_at d (kp_v k) (kp_u k)"
    by (simp add: uv)
qed

theorem detectKeypoints_output_invariant_witness:
  "detectKeypoints params0 grid3 peak3 = [mk_keypoint grid3 1 1 1] \<and>
   kp_type (mk_keypoint grid3 1 1 1) = 1 \<and>
   kp_u (mk_keypoint grid3 1 1 1) = 1 \<and> kp_v (mk_keypoint grid3 1 1 1) = 1 \<and>
   int (width grid3) - 2 = 1 \<and> int (height grid3) - 2 = 1 \<and>
   data grid3 ! nat (1 * int (width grid3) + 1) = 0 \<and>
   keypointsMinDistFromMap params0 \<le> mat_at peak3 1 1"
proof -
  have out: "detectKeypoints params0 grid3 peak3 = [mk_keypoint grid3 1 1 1]"
    by (simp add: detector_defs peak3_def)
  have coords: "kp_type (mk_keypoint grid3 1 1 1) = 1"
    "kp_u (mk_keypoint grid3 1 1 1) = 1" "kp_v (mk_keypoint grid3 1 1 1) = 1"
    by (simp_all add: mk_keypoint_def Let_def)
  have dims: "int (width grid3) - 2 = 1" "int (height grid3) - 2 = 1"
    by (simp_all add: grid3_def)
  from detectKeypoints_output_invariant [of params0 grid3 peak3] out
  have "data grid3 ! nat (kp_v (mk_keypoint grid3 1 1 1) * int (width grid3)
            + kp_u (mk_keypoint grid3 1 1 1)) = 0 \<and>
        keypointsMinDistFromMap params0
          \<le> mat_at peak3 (kp_v (mk_keypoint grid3 1 1 1)) (kp_u (mk_keypoint grid3 1 1 1))"
    by simp
  with out coords dims show ?thesis by simp
qed


section \<open>Properties of the feature descriptor\<close>

lemma dominant_zeros: "dominant (orientHist []) = 0"
proof -
  have "snd (fold (\<lambda>j (maxVal, domOrient).
                  if replicate n (0::int) ! j > maxVal then (replicate n 0 ! j, real j * 10)
                  else (maxVal, domOrient)) js (0, 0)) = 0"
    if "\<forall>j \<in> set js. j < n" for n js
    using that by (induction js) auto
  from this [of "[1 ..< 36]" 36]
  have "dominant (replicate 36 0) = 0"
    by (simp add: dominant_def)
  moreover have "orientHist [] = replicate 36 0"
    by (simp add: orientHist_def map_replicate_const)
  ultimately show ?thesis by simp
qed

lemma calcFeature_empty_window:
  assumes "window_cells d (window_radius p s) (kp_u k) (kp_v k) = []"
  shows "calcFeature p s d k =
           \<lparr>dominantOrientation = 0, averageSDF = NaN,
            relativeOrientationHist = replicate 17 0\<rparr>"
proof -
  have "relOrientHist 0 [] = replicate 17 0"
    by (simp add: relOrientHist_def map_replicate_const)
  then show ?thesis
    using assms
    by (simp add: calcFeature_def Let_def orientations_def dominant_zeros fl_div_def)
qed

lemma corner_window_empty:
  "window_cells peak3 (window_radius params0 sampler3) (kp_u kp_corner) (kp_v kp_corner) = []"
  by (simp add: window_cells_def window_radius_def trunc_def params0_def sampler3_def
        kp_corner_def)

text \<open>
  Claim C7, as stated, fails: for a keypoint whose window has no valid cell the average
  is not a zero sentinel. \<^verbatim>\<open>calculateFeatures\<close> divides the zero sum by the zero cell
  count, and the stored average is the NaN of that division. (Keypoint in the corner of
  a 3 x 3 field, half-width 0.)
\<close>

theorem calculateFeatures_average_counterexample:
  "window_cells peak3 (window_radius params0 sampler3) (kp_u kp_corner) (kp_v kp_corner) = [] \<and>
   map averageSDF (calculateFeatures params0 sampler3 peak3 [kp_corner]) = [NaN] \<and>
   map averageSDF (calculateFeatures params0 sampler3 peak3 [kp_corner]) \<noteq> [Fin 0]"
  by (simp add: calculateFeatures_def corner_window_empty calcFeature_empty_window)

text \<open>
  Claim C7, amended. For every keypoint whose feature window contains zero valid cells,
  \<^verbatim>\<open>calculateFeatures\<close> produces the feature with dominant orientation zero and an
  all-zero relative-orientation histogram; its average distance-field value is the
  result of the unguarded division of the zero sum by the zero cell count, a NaN.
\<close>

theorem calculateFeatures_empty_window:
  assumes "i < length keypoints"
    and "window_cells d (window_radius p s) (kp_u (keypoints ! i)) (kp_v (keypoints ! i)) = []"
  shows "calculateFeatures p s d keypoints ! i =
           \<lparr>dominantOrientation = 0, averageSDF = NaN,
            relativeOrientationHist = replicate 17 0\<rparr>"
  using assms by (simp add: calculateFeatures_def calcFeature_empty_window)

theorem calculateFeatures_empty_window_witness:
  "(0::nat) < length [kp_corner] \<and>
   window_cells peak3 (window_radius params0 sampler3)
     (kp_u ([kp_corner] ! 0)) (kp_v ([kp_corner] ! 0)) = [] \<and>
   calculateFeatures params0 sampler3 peak3 [kp_corner] ! 0 =
     \<lparr>dominantOrientation = 0, averageSDF = NaN, relativeOrientationHist = replicate 17 0\<rparr>"
  using calculateFeatures_empty_window
          [where i = 0 and keypoints = "[kp_corner]" and d = peak3 and p = params0
             and s = sampler3]
        corner_window_empty
  by simp


section \<open>Properties of the callbacks\<close>


lemma step_published: "published (snd (step e s)) = []"
  by (cases e) (auto simp: mapCB_def scanCB_def odomCB_def checkMapOdom_def published_def)


lemma published_append: "published (a @ b) = published a @ published b"
  by (simp add: published_def)

lemma run_published: "published (snd (run evs s)) = []"
proof (induction evs arbitrary: s)
  case Nil
  then show ?case by (simp add: published_def)
next
  case (Cons e evs)
  then show ?case
    using step_published [of e s]
    by (simp add: Let_def case_prod_beta published_append)
qed

text \<open>
  Claim C6. For every incoming scan whose fraction of in-range beams is below 0.1, the
  scan callback returns with no state change (the keyframe window, the odometry pose and
  every other member are as before) and publishes nothing (no pose array, no local map,
  no keypoint markers); its only effect is the log line with the frame id. The callback
  of the class does not read the ranges, so it treats every other scan in the same way;
  the class keeps no previous-odometry record apart from the member \<^verbatim>\<open>odomPose_\<close>.
\<close>

theorem scanCB_invalid_scan_dropped:
  assumes "ranges msg \<noteq> []"
    and "real (length (filter (\<lambda>r. range_min msg \<le> r \<and> r \<le> range_max msg) (ranges msg)))
           / real (length (ranges msg)) < 1 / 10"
  shows "fst (scanCB msg s) = s \<and>
         keyScans (fst (scanCB msg s)) = keyScans s \<and>
         keyPoses (fst (scanCB msg s)) = keyPoses s \<and>
         odomPose (fst (scanCB msg s)) = odomPose s \<and>
         snd (scanCB msg s) = [Info (''I heard: '' @ [CHR 0x27] @ frame_id msg @ [CHR 0x27])] \<and>
         (\<forall>m. Published m \<notin> set (snd (scanCB msg s))) \<and>
         published (snd (scanCB msg s)) = []"
  by (simp add: scanCB_def heard_def published_def)

theorem scanCB_invalid_scan_dropped_witness:
  "ranges scan_far \<noteq> [] \<and>
   real (length (filter (\<lambda>r. range_min scan_far \<le> r \<and> r \<le> range_max scan_far)
                        (ranges scan_far)))
     / real (length (ranges scan_far)) = 1 / 20 \<and>
   fst (scanCB scan_far sampler3) = sampler3 \<and>
   snd (scanCB scan_far sampler3) = [Info (''I heard: '' @ [CHR 0x27] @ ''base_laser'' @ [CHR 0x27])] \<and>
   published (snd (scanCB scan_far sampler3)) = []"
proof -
  have r: "ranges scan_far \<noteq> []"
    by (simp add: scan_far_def scan_of_def)
  have f: "real (length (filter (\<lambda>r. range_min scan_far \<le> r \<and> r \<le> range_max scan_far)
                                (ranges scan_far)))
             / real (length (ranges scan_far)) = 1 / 20"
    by (simp add: scan_far_def scan_of_def)
  have i: "frame_id scan_far = ''base_laser''"
    by (simp add: scan_far_def scan_of_def)
  from f have lt: "real (length (filter (\<lambda>r. range_min scan_far \<le> r \<and> r \<le> range_max scan_far)
                                        (ranges scan_far)))
                     / real (length (ranges scan_far)) < 1 / 10"
    by simp
  note t = scanCB_invalid_scan_dropped [OF r lt, of sampler3, unfolded i]
  from t r f show ?thesis by blast
qed



section \<open>Properties of the matcher of the specification\<close>













section \<open>Properties of the hypothesis filter and the verification of the specification\<close>












end
